theory Spec2Isabelle
  imports
    Main
    "HOL-Library.Word"
    "HOL-Library.AList"
    "HOL-Library.Char_ord"
    "HOL-Library.List_Lexorder"
begin

unbundle bit_operations_syntax

section \<open>Values held in a record set\<close>

text \<open>
  The pipeline of \<^verbatim>\<open>src/etl_pipeline.py\<close> works on pandas data frames whose cells hold
  what \<^verbatim>\<open>pd.read_json\<close> and \<^verbatim>\<open>pd.read_csv\<close> produce: \<^verbatim>\<open>None\<close>, the float \<^verbatim>\<open>NaN\<close> that
  pandas uses as its marker of a missing entry, booleans, integers, strings, lists and
  dictionaries with string keys. A dictionary keeps its insertion order, so it is an
  association list. Finite floating-point numbers are left out of the model; a
  \<^typ>\<open>string\<close> is read as a sequence of code points below 256.
\<close>

datatype pyval =
    PNone
  | PNaN
  | PBool bool
  | PInt int
  | PStr string
  | PList "pyval list"
  | PDict "(string \<times> pyval) list"

datatype error =
    KeyError string
  | ValueError
  | TypeError
  | MergeError
  | FileNotFoundError string
  | RuntimeError string

text \<open>Sequencing of fallible steps: the first raise ends the computation.\<close>

definition bind :: "error + 'a \<Rightarrow> ('a \<Rightarrow> error + 'b) \<Rightarrow> error + 'b" where
  "bind m f = (case m of Inl e \<Rightarrow> Inl e | Inr x \<Rightarrow> f x)"

section \<open>\<^verbatim>\<open>json.dumps\<close> with its default arguments\<close>

definition dquote :: char where
  "dquote = CHR 0x22"

definition backslash :: char where
  "backslash = CHR 0x5C"

definition hexdigit :: "nat \<Rightarrow> char" where
  "hexdigit n = (if n < 10 then char_of (48 + n) else char_of (87 + n))"

text \<open>
  \<^verbatim>\<open>py_encode_basestring_ascii\<close>: the quote and the backslash are escaped, five control
  characters have a short escape, every other character outside \<^verbatim>\<open>' '..'~'\<close> becomes
  \<^verbatim>\<open>\uXXXX\<close> in lower-case hexadecimal.
\<close>

definition escape_char :: "char \<Rightarrow> string" where
  "escape_char c =
     (if c = dquote then [backslash, dquote]
      else if c = backslash then [backslash, backslash]
      else if c = CHR 0x08 then [backslash, CHR ''b'']
      else if c = CHR 0x0C then [backslash, CHR ''f'']
      else if c = CHR 0x0A then [backslash, CHR ''n'']
      else if c = CHR 0x0D then [backslash, CHR ''r'']
      else if c = CHR 0x09 then [backslash, CHR ''t'']
      else if 32 \<le> (of_char c :: nat) \<and> (of_char c :: nat) \<le> 126 then [c]
      else [backslash, CHR ''u'', CHR ''0'', CHR ''0'',
            hexdigit ((of_char c :: nat) div 16), hexdigit ((of_char c :: nat) mod 16)])"

definition json_string :: "string \<Rightarrow> string" where
  "json_string s = [dquote] @ concat (map escape_char s) @ [dquote]"

function nat_digits :: "nat \<Rightarrow> string" where
  "nat_digits n =
     (if n < 10 then [char_of (48 + n)]
      else nat_digits (n div 10) @ [char_of (48 + n mod 10)])"
  by pat_completeness auto
termination
  by (relation "measure id") auto

declare nat_digits.simps [simp del]

definition int_repr :: "int \<Rightarrow> string" where
  "int_repr i = (if i < 0 then ''-'' @ nat_digits (nat (- i)) else nat_digits (nat i))"

fun intercalate :: "'a list \<Rightarrow> 'a list list \<Rightarrow> 'a list" where
  "intercalate sep [] = []"
| "intercalate sep [x] = x"
| "intercalate sep (x # y # ys) = x @ sep @ intercalate sep (y # ys)"

text \<open>
  The default separators are \<^verbatim>\<open>', '\<close> and \<^verbatim>\<open>': '\<close>; \<^verbatim>\<open>allow_nan\<close> is on, so the float
  \<^verbatim>\<open>NaN\<close> is written as the text \<^verbatim>\<open>NaN\<close>.
\<close>

fun json_dumps :: "pyval \<Rightarrow> string" where
  "json_dumps PNone = ''null''"
| "json_dumps PNaN = ''NaN''"
| "json_dumps (PBool b) = (if b then ''true'' else ''false'')"
| "json_dumps (PInt i) = int_repr i"
| "json_dumps (PStr s) = json_string s"
| "json_dumps (PList xs) = ''['' @ intercalate '', '' (map json_dumps xs) @ '']''"
| "json_dumps (PDict kvs) =
     ''{'' @ intercalate '', '' (map (\<lambda>(k, v). json_string k @ '': '' @ json_dumps v) kvs) @ ''}''"

section \<open>Record sets\<close>

text \<open>
  A data frame is its number of rows (the length of its index) and its columns in
  order, each a label with one cell per row.
\<close>

record frame =
  nrows :: nat
  cols :: "(string \<times> pyval list) list"

definition columns :: "frame \<Rightarrow> string list" where
  "columns df = map fst (cols df)"

text \<open>What pandas maintains of every frame of the pipeline: labels are distinct and
  every column has one cell per row.\<close>

definition wf_frame :: "frame \<Rightarrow> bool" where
  "wf_frame df \<longleftrightarrow>
     distinct (columns df) \<and> list_all (\<lambda>cv. length (snd cv) = nrows df) (cols df)"

text \<open>\<^verbatim>\<open>df[c]\<close> raises \<^verbatim>\<open>KeyError\<close> when the label is missing.\<close>

definition getitem :: "frame \<Rightarrow> string \<Rightarrow> error + pyval list" where
  "getitem df c = (case map_of (cols df) c of None \<Rightarrow> Inl (KeyError c) | Some vs \<Rightarrow> Inr vs)"

text \<open>
  \<^verbatim>\<open>df[c] = values\<close> replaces the column of that label where it stands, or appends a new
  column; values of another length than the index raise \<^verbatim>\<open>ValueError\<close>.
\<close>

definition setitem :: "frame \<Rightarrow> string \<Rightarrow> pyval list \<Rightarrow> error + frame" where
  "setitem df c vs =
     (if length vs \<noteq> nrows df then Inl ValueError
      else Inr (df\<lparr>cols := AList.update c vs (cols df)\<rparr>))"

section \<open>What is taken from pandas as given\<close>

text \<open>
  Three things are decided inside pandas, by the types it infers for columns, and differ
  between its versions. They are parameters of the model:
  \<^item> \<open>infer_cell vs v\<close> is what a column keeps of the value \<open>v\<close> when \<^verbatim>\<open>Series.apply\<close> has
    produced the list \<open>vs\<close> and pandas stores it under the type it infers for the list.
    Integers next to \<^verbatim>\<open>None\<close> are stored as floats: \<^verbatim>\<open>None\<close> becomes \<^verbatim>\<open>NaN\<close> and an integer
    the nearest float.
  \<^item> \<open>fill_cell vs v\<close> is what a column keeps of \<open>v\<close> when \<^verbatim>\<open>merge\<close> has filled the rows
    without a match with the missing marker, giving the list \<open>vs\<close>, and has promoted the
    type of the column to hold it.
  \<^item> \<open>factorize_keys lk rk\<close> is what \<^verbatim>\<open>merge\<close> makes of the two key columns: it raises when
    they cannot be merged (\<^verbatim>\<open>ValueError\<close> for a column of integers against one of strings,
    \<^verbatim>\<open>TypeError\<close> for keys that cannot be hashed), and else gives every key a code, two
    keys the same code exactly when pandas takes them to match (every missing key, \<^verbatim>\<open>None\<close>
    or \<^verbatim>\<open>NaN\<close>, matches every other).
  A value that a conversion yields is again a value of the model; an integer stands for
  the float of the same value where pandas keeps one.
\<close>

record pandas =
  infer_cell :: "pyval list \<Rightarrow> pyval \<Rightarrow> pyval"
  fill_cell :: "pyval list \<Rightarrow> pyval \<Rightarrow> pyval"
  factorize_keys :: "pyval list \<Rightarrow> pyval list \<Rightarrow> error + (pyval \<Rightarrow> nat)"

definition stored :: "(pyval list \<Rightarrow> pyval \<Rightarrow> pyval) \<Rightarrow> pyval list \<Rightarrow> pyval list" where
  "stored conv vs = map (conv vs) vs"


section \<open>The detail flattener: \<^verbatim>\<open>extract_details_fields\<close>\<close>

definition default_fields :: "string list" where
  "default_fields = [''page_url'', ''button_id'', ''item_id'']"

text \<open>
  \<^verbatim>\<open>sorted(set(default_fields + (fields if fields else [])))\<close>, as line 62 computes it.
  An omitted list is \<^term>\<open>None\<close>.
\<close>

definition all_fields :: "string list option \<Rightarrow> string list" where
  "all_fields flds =
     sort (remdups (default_fields @
       (case flds of Some fs \<Rightarrow> (if fs \<noteq> [] then fs else []) | None \<Rightarrow> [])))"

text \<open>\<^verbatim>\<open>lambda x: x.get(field) if isinstance(x, dict) else None\<close>\<close>

definition project_field :: "string \<Rightarrow> pyval \<Rightarrow> pyval" where
  "project_field field x =
     (case x of
        PDict kvs \<Rightarrow> (case map_of kvs field of Some v \<Rightarrow> v | None \<Rightarrow> PNone)
      | _ \<Rightarrow> PNone)"

text \<open>\<^verbatim>\<open>df['details'].apply(lambda x: ...)\<close>: the projected values, as pandas stores them.\<close>

definition projected_column :: "pandas \<Rightarrow> string \<Rightarrow> pyval list \<Rightarrow> pyval list" where
  "projected_column pd field ds = stored (infer_cell pd) (map (project_field field) ds)"

text \<open>The loop of lines 64-65: each pass reads the \<^verbatim>\<open>details\<close> column of the frame as
  it stands and assigns the projected column.\<close>

fun project_fields :: "pandas \<Rightarrow> string list \<Rightarrow> frame \<Rightarrow> error + frame" where
  "project_fields pd [] df = Inr df"
| "project_fields pd (field # rest) df =
     bind (getitem df ''details'') (\<lambda>ds.
     bind (setitem df field (projected_column pd field ds)) (\<lambda>df'.
     project_fields pd rest df'))"

text \<open>Line 59 assigns a list of strings, which every version stores as it is.\<close>

definition extract_details_fields ::
    "pandas \<Rightarrow> frame \<Rightarrow> string list option \<Rightarrow> error + frame" where
  "extract_details_fields pd df flds =
     bind (getitem df ''details'') (\<lambda>ds.
     bind (setitem df ''details_raw'' (map (\<lambda>x. PStr (json_dumps x)) ds)) (\<lambda>df1.
     project_fields pd (all_fields flds) df1))"

section \<open>The column projector: \<^verbatim>\<open>select_final_columns\<close>\<close>

definition base_columns :: "string list" where
  "base_columns =
     [''event_id'', ''user_id'', ''name'', ''location'', ''registration_date'',
      ''event_type'', ''timestamp'', ''event_date'', ''details_raw'']"

text \<open>Lines 98-99 compute the dynamic field list a second time, from \<^verbatim>\<open>extra_fields\<close>.\<close>

definition select_all_fields :: "string list option \<Rightarrow> string list" where
  "select_all_fields extra_fields =
     sort (remdups (default_fields @
       (case extra_fields of Some fs \<Rightarrow> (if fs \<noteq> [] then fs else []) | None \<Rightarrow> [])))"

text \<open>\<^verbatim>\<open>df[labels]\<close> builds a new frame of the listed columns, in the listed order, and
  raises \<^verbatim>\<open>KeyError\<close> at the first label that is missing.\<close>

fun getitem_list :: "frame \<Rightarrow> string list \<Rightarrow> error + (string \<times> pyval list) list" where
  "getitem_list df [] = Inr []"
| "getitem_list df (c # cs) =
     bind (getitem df c) (\<lambda>vs.
     bind (getitem_list df cs) (\<lambda>rest. Inr ((c, vs) # rest)))"

definition select_final_columns :: "frame \<Rightarrow> string list option \<Rightarrow> error + frame" where
  "select_final_columns df extra_fields =
     (let final_columns = base_columns @ select_all_fields extra_fields;
          available_columns = filter (\<lambda>col. col \<in> set (columns df)) final_columns
      in bind (getitem_list df available_columns) (\<lambda>cs. Inr \<lparr>nrows = nrows df, cols = cs\<rparr>))"

section \<open>The joiner: \<^verbatim>\<open>join_data\<close>\<close>

text \<open>
  \<^verbatim>\<open>events_df.merge(profiles_df, on='user_id', how='left')\<close>. The pandas operation, as
  far as the pipeline uses it: both frames must have the key column (\<^verbatim>\<open>KeyError\<close>
  otherwise); the keys of the two columns are factorized into codes, which raises for
  key columns that cannot be merged; every left row is paired, in order, with each right
  row whose key has the same code, or once with no right row when there is none; the
  right frame's key column is dropped; a label that both sides have gets the suffix \<^verbatim>\<open>_x\<close>
  on the left and \<^verbatim>\<open>_y\<close> on the right, and \<^verbatim>\<open>MergeError\<close> is raised when a suffix makes two
  labels of one side equal; the cells of an unmatched row are filled with the missing
  marker, and the right columns are stored under the type that holds it.
\<close>

definition join_indexers :: "nat list \<Rightarrow> nat list \<Rightarrow> (nat \<times> nat option) list" where
  "join_indexers lk rk =
     concat (map (\<lambda>i.
       let ms = filter (\<lambda>j. rk ! j = lk ! i) [0..<length rk]
       in if ms = [] then [(i, None)] else map (\<lambda>j. (i, Some j)) ms) [0..<length lk])"

definition take_left :: "(nat \<times> nat option) list \<Rightarrow> pyval list \<Rightarrow> pyval list" where
  "take_left ix vs = map (\<lambda>(i, j). vs ! i) ix"

definition take_right :: "(nat \<times> nat option) list \<Rightarrow> pyval list \<Rightarrow> pyval list" where
  "take_right ix vs = map (\<lambda>(i, j). case j of None \<Rightarrow> PNaN | Some k \<Rightarrow> vs ! k) ix"

definition rename_overlap :: "string list \<Rightarrow> string \<Rightarrow> string \<Rightarrow> string" where
  "rename_overlap overlap suffix c = (if c \<in> set overlap then c @ suffix else c)"

definition merge_left :: "pandas \<Rightarrow> frame \<Rightarrow> frame \<Rightarrow> string \<Rightarrow> error + frame" where
  "merge_left pd left right key =
     bind (getitem left key) (\<lambda>lk.
     bind (getitem right key) (\<lambda>rk.
     bind (factorize_keys pd lk rk) (\<lambda>code.
       let rcols = filter (\<lambda>cv. fst cv \<noteq> key) (cols right);
           overlap = filter (\<lambda>c. c \<in> set (map fst rcols)) (columns left);
           llabels = map (rename_overlap overlap ''_x'') (columns left);
           rlabels = map (rename_overlap overlap ''_y'') (map fst rcols);
           ix = join_indexers (map code lk) (map code rk)
       in if \<not> distinct llabels \<or> \<not> distinct rlabels then Inl MergeError
          else Inr \<lparr>nrows = length ix,
                    cols = zip llabels (map (\<lambda>cv. take_left ix (snd cv)) (cols left)) @
                           zip rlabels
                             (map (\<lambda>cv. stored (fill_cell pd) (take_right ix (snd cv))) rcols)\<rparr>)))"

definition join_data :: "pandas \<Rightarrow> frame \<Rightarrow> frame \<Rightarrow> error + frame" where
  "join_data pd profiles_df events_df = merge_left pd events_df profiles_df ''user_id''"

section \<open>The identity assigner: \<^verbatim>\<open>generate_event_id\<close>\<close>

text \<open>
  \<^verbatim>\<open>uuid.uuid4()\<close> is \<^verbatim>\<open>UUID(bytes=os.urandom(16), version=4)\<close>: the sixteen random bytes are
  read as a 128-bit integer, the variant and version bits are overwritten, and the text
  form is the 32 hexadecimal digits grouped 8-4-4-4-12.
\<close>

definition uuid4_int :: "128 word \<Rightarrow> 128 word" where
  "uuid4_int r =
     (((r AND NOT (push_bit 48 0xc000)) OR push_bit 48 0x8000)
        AND NOT (push_bit 64 0xf000)) OR push_bit 76 4"

definition hex32 :: "128 word \<Rightarrow> string" where
  "hex32 w = map (\<lambda>i. hexdigit (unat (drop_bit (4 * i) w AND 0xF))) (rev [0..<32])"

definition uuid_str :: "128 word \<Rightarrow> string" where
  "uuid_str w =
     (let h = hex32 w
      in take 8 h @ ''-'' @ take 4 (drop 8 h) @ ''-'' @ take 4 (drop 12 h) @ ''-'' @
         take 4 (drop 16 h) @ ''-'' @ drop 20 h)"

text \<open>
  The entropy source is explicit: \<open>urandom n\<close> is what the \<open>n\<close>-th call of
  \<^verbatim>\<open>os.urandom(16)\<close> returns, and the counter of calls made so far is passed through.
  Line 85 draws one identifier per row of the index and assigns the list as the column
  \<^verbatim>\<open>event_id\<close>.
\<close>

definition generate_event_id ::
    "(nat \<Rightarrow> 128 word) \<Rightarrow> nat \<Rightarrow> frame \<Rightarrow> (error + frame) \<times> nat" where
  "generate_event_id urandom k df =
     (setitem df ''event_id''
        (map (\<lambda>i. PStr (uuid_str (uuid4_int (urandom (k + i))))) [0..<nrows df]),
      k + nrows df)"

section \<open>The profile loader: \<^verbatim>\<open>load_user_profiles\<close>\<close>

text \<open>
  A text is the list of its code points, as the \<^verbatim>\<open>utf-8\<close> codec decodes the file. The codec
  \<^verbatim>\<open>utf-8-sig\<close> drops one byte-order mark at the start of the file. A file opened in text
  mode translates \<^verbatim>\<open>\r\n\<close> and \<^verbatim>\<open>\r\<close> to \<^verbatim>\<open>\n\<close>, and iterating it yields the lines with
  their line ends.
\<close>

type_synonym ustr = "nat list"

definition bom :: nat where
  "bom = 0xFEFF"

definition quote_char :: nat where
  "quote_char = 0x22"

definition newline :: nat where
  "newline = 0x0A"

definition utf8_sig :: "ustr \<Rightarrow> ustr" where
  "utf8_sig cs = (case cs of [] \<Rightarrow> [] | c # rest \<Rightarrow> if c = bom then rest else cs)"

fun universal_newlines :: "ustr \<Rightarrow> ustr" where
  "universal_newlines [] = []"
| "universal_newlines [c] = [if c = 0x0D then newline else c]"
| "universal_newlines (c # d # cs) =
     (if c = 0x0D \<and> d = newline then newline # universal_newlines cs
      else if c = 0x0D then newline # universal_newlines (d # cs)
      else c # universal_newlines (d # cs))"

fun file_lines :: "ustr \<Rightarrow> ustr list" where
  "file_lines [] = []"
| "file_lines (c # cs) =
     (if c = newline then [c] # file_lines cs
      else (case file_lines cs of [] \<Rightarrow> [[c]] | l # ls \<Rightarrow> (c # l) # ls))"

text \<open>The characters that \<^verbatim>\<open>str.strip()\<close> removes: those for which \<^verbatim>\<open>str.isspace\<close> holds.\<close>

definition is_space :: "nat \<Rightarrow> bool" where
  "is_space c \<longleftrightarrow>
     (0x09 \<le> c \<and> c \<le> 0x0D) \<or> (0x1C \<le> c \<and> c \<le> 0x20) \<or> c = 0x85 \<or> c = 0xA0 \<or>
     c = 0x1680 \<or> (0x2000 \<le> c \<and> c \<le> 0x200A) \<or> c = 0x2028 \<or> c = 0x2029 \<or>
     c = 0x202F \<or> c = 0x205F \<or> c = 0x3000"

text \<open>\<^verbatim>\<open>s.strip(chars)\<close> removes every leading and every trailing character of the set.\<close>

definition py_strip :: "('a \<Rightarrow> bool) \<Rightarrow> 'a list \<Rightarrow> 'a list" where
  "py_strip P s = rev (dropWhile P (rev (dropWhile P s)))"

text \<open>Line 28: \<^verbatim>\<open>line.strip().strip('"')\<close>\<close>

definition repair_line :: "ustr \<Rightarrow> ustr" where
  "repair_line line = py_strip (\<lambda>c. c = quote_char) (py_strip is_space line)"

text \<open>Lines 27-29: the repaired lines, joined by \<^verbatim>\<open>\n\<close>.\<close>

definition fixed_csv :: "ustr \<Rightarrow> ustr" where
  "fixed_csv content =
     intercalate [newline] (map repair_line (file_lines (universal_newlines (utf8_sig content))))"

text \<open>
  One pass of the loop of lines 25-31. The file system maps a path to the decoded
  content of the file there; \<^verbatim>\<open>pd.read_csv\<close> is a parameter that takes the text and the
  labels of \<^verbatim>\<open>parse_dates\<close>.
\<close>

definition load_profile_file ::
    "(string \<Rightarrow> ustr option) \<Rightarrow> (ustr \<Rightarrow> string list \<Rightarrow> error + frame) \<Rightarrow> string \<Rightarrow> error + frame" where
  "load_profile_file fs read_csv csv_path =
     (case fs csv_path of
        None \<Rightarrow> Inl (FileNotFoundError csv_path)
      | Some content \<Rightarrow> read_csv (fixed_csv content) [''registration_date''])"

text \<open>Lines 24-34; \<^verbatim>\<open>pd.concat\<close> is a parameter.\<close>

fun load_all_profiles ::
    "(string \<Rightarrow> ustr option) \<Rightarrow> (ustr \<Rightarrow> string list \<Rightarrow> error + frame) \<Rightarrow> string list \<Rightarrow>
     error + frame list" where
  "load_all_profiles fs read_csv [] = Inr []"
| "load_all_profiles fs read_csv (csv_path # rest) =
     bind (load_profile_file fs read_csv csv_path) (\<lambda>df.
     bind (load_all_profiles fs read_csv rest) (\<lambda>dfs. Inr (df # dfs)))"

definition load_user_profiles ::
    "(string \<Rightarrow> ustr option) \<Rightarrow> (ustr \<Rightarrow> string list \<Rightarrow> error + frame) \<Rightarrow>
     (frame list \<Rightarrow> error + frame) \<Rightarrow> string list \<Rightarrow> error + frame" where
  "load_user_profiles fs read_csv concat_frames csv_paths =
     bind (load_all_profiles fs read_csv csv_paths) concat_frames"

text \<open>The spec's words for the quote repair: one quote character from each end at most.\<close>

definition strip_single_quote_layer :: "ustr \<Rightarrow> ustr" where
  "strip_single_quote_layer s =
     (let s1 = (case s of [] \<Rightarrow> [] | c # rest \<Rightarrow> if c = quote_char then rest else s)
      in if s1 \<noteq> [] \<and> last s1 = quote_char then butlast s1 else s1)"

section \<open>The stages as operations on data frame objects\<close>

text \<open>
  A Python name denotes an object, and a stage either changes the object it is given or
  builds a new one. The heap maps a reference to the frame stored there; \<open>next_ref\<close> is
  the first reference not yet in use.
  \<^item> \<^verbatim>\<open>extract_details_fields\<close> assigns columns of \<^verbatim>\<open>df\<close> and returns \<^verbatim>\<open>df\<close>;
  \<^item> \<^verbatim>\<open>join_data\<close> returns the new frame that \<^verbatim>\<open>merge\<close> builds;
  \<^item> \<^verbatim>\<open>generate_event_id\<close> assigns a column of \<^verbatim>\<open>df\<close> and returns \<^verbatim>\<open>df\<close>;
  \<^item> \<^verbatim>\<open>select_final_columns\<close> returns the new frame that \<^verbatim>\<open>df[available_columns]\<close> builds.
\<close>

record heap =
  objs :: "nat \<Rightarrow> frame"
  next_ref :: nat

definition alloc :: "heap \<Rightarrow> frame \<Rightarrow> nat \<times> heap" where
  "alloc h df = (next_ref h, h\<lparr>objs := (objs h)(next_ref h := df), next_ref := Suc (next_ref h)\<rparr>)"

definition extract_details_fields_ref ::
    "pandas \<Rightarrow> heap \<Rightarrow> nat \<Rightarrow> string list option \<Rightarrow> error + nat \<times> heap" where
  "extract_details_fields_ref pd h df flds =
     bind (extract_details_fields pd (objs h df) flds) (\<lambda>df'.
       Inr (df, h\<lparr>objs := (objs h)(df := df')\<rparr>))"

definition join_data_ref :: "pandas \<Rightarrow> heap \<Rightarrow> nat \<Rightarrow> nat \<Rightarrow> error + nat \<times> heap" where
  "join_data_ref pd h profiles_df events_df =
     bind (join_data pd (objs h profiles_df) (objs h events_df)) (\<lambda>df. Inr (alloc h df))"

definition generate_event_id_ref ::
    "(nat \<Rightarrow> 128 word) \<Rightarrow> nat \<Rightarrow> heap \<Rightarrow> nat \<Rightarrow> (error + nat \<times> heap) \<times> nat" where
  "generate_event_id_ref urandom k h df =
     (case generate_event_id urandom k (objs h df) of
        (res, k') \<Rightarrow> (bind res (\<lambda>df'. Inr (df, h\<lparr>objs := (objs h)(df := df')\<rparr>)), k'))"

definition select_final_columns_ref ::
    "heap \<Rightarrow> nat \<Rightarrow> string list option \<Rightarrow> error + nat \<times> heap" where
  "select_final_columns_ref h df extra_fields =
     bind (select_final_columns (objs h df) extra_fields) (\<lambda>df'. Inr (alloc h df'))"

section \<open>The query utility: \<^verbatim>\<open>query_output_parquet\<close>\<close>

text \<open>
  \<^verbatim>\<open>str.replace(old, new)\<close> for a non-empty \<^verbatim>\<open>old\<close>: every occurrence, left to right, without
  overlap.
\<close>

function py_replace :: "string \<Rightarrow> string \<Rightarrow> string \<Rightarrow> string" where
  "py_replace old new s =
     (if s = [] then []
      else if old \<noteq> [] \<and> take (length old) s = old
        then new @ py_replace old new (drop (length old) s)
      else hd s # py_replace old new (tl s))"
  by pat_completeness auto
termination
  by (relation "measure (\<lambda>(old, new, s). length s)") (auto simp: neq_Nil_conv)

declare py_replace.simps [simp del]

definition placeholder :: string where
  "placeholder = ''{parquet_path}''"

text \<open>\<^verbatim>\<open>str(resolved_path / "**/*.parquet")\<close> on a POSIX path.\<close>

definition path_join :: "string \<Rightarrow> string \<Rightarrow> string" where
  "path_join p rel = (if p = ''/'' then p @ rel else p @ ''/'' @ rel)"

text \<open>
  What the function sees of the world: \<open>resolve\<close> is \<^verbatim>\<open>Path(p).resolve()\<close> as a string,
  \<open>path_exists\<close> is \<^verbatim>\<open>Path.exists\<close>, and \<open>execute\<close> is \<^verbatim>\<open>con.execute(q).df()\<close> on a fresh
  in-memory connection, returning the table or the message of the exception it raises.
  The session records what was done to the engine.
\<close>

record 'r world =
  resolve :: "string \<Rightarrow> string"
  path_exists :: "string \<Rightarrow> bool"
  execute :: "string \<Rightarrow> string + 'r"

record session =
  executed :: "string list"
  opened :: nat
  closed :: nat

definition query_output_parquet ::
    "'r world \<Rightarrow> string \<Rightarrow> string \<Rightarrow> session \<Rightarrow> (error + 'r) \<times> session" where
  "query_output_parquet w query parquet_path st =
     (let resolved_path = resolve w parquet_path
      in if \<not> path_exists w resolved_path
         then (Inl (FileNotFoundError (''Provided path does not exist: '' @ resolved_path)), st)
         else
           let formatted_query =
                 py_replace placeholder (path_join resolved_path ''**/*.parquet'') query;
               st1 = st\<lparr>opened := Suc (opened st)\<rparr>;
               st2 = st1\<lparr>executed := executed st1 @ [formatted_query]\<rparr>
           in (case execute w formatted_query of
                 Inl e \<Rightarrow> (Inl (RuntimeError (''Query failed: '' @ e)), st2\<lparr>closed := Suc (closed st2)\<rparr>)
               | Inr result_df \<Rightarrow> (Inr result_df, st2\<lparr>closed := Suc (closed st2)\<rparr>)))"

section \<open>Reading a serialisation\<close>








section \<open>The effective field set\<close>

text \<open>The spec's words for the field set: the sorted, deduplicated union of the three
  default names and the caller's list.\<close>

definition effective_field_set :: "string list \<Rightarrow> string list" where
  "effective_field_set caller =
     sorted_list_of_set ({''page_url'', ''button_id'', ''item_id''} \<union> set caller)"

section \<open>Example record sets\<close>

definition ex_events :: frame where
  "ex_events =
     \<lparr>nrows = 2,
      cols = [(''user_id'', [PInt 1, PInt 3]),
              (''event_type'', [PStr ''click'', PStr ''view'']),
              (''details'', [PDict [(''page_url'', PStr ''/x'')], PNone])]\<rparr>"




definition ex_profiles_dup :: frame where
  "ex_profiles_dup =
     \<lparr>nrows = 3,
      cols = [(''user_id'', [PInt 1, PInt 2, PInt 1]),
              (''name'', [PStr ''A'', PStr ''B'', PStr ''C''])]\<rparr>"

text \<open>
  An instance of the parameters for the examples: every list is stored as it is, which is
  what pandas does with the lists the examples state (a list of \<^verbatim>\<open>None\<close> only, a list of
  integers only, a list of dictionaries), and two key columns of integers only are merged
  with equal integers matching. The instance is used on such inputs only.
\<close>

definition is_int :: "pyval \<Rightarrow> bool" where
  "is_int v = (case v of PInt i \<Rightarrow> True | _ \<Rightarrow> False)"

definition int_code :: "pyval \<Rightarrow> nat" where
  "int_code v = (case v of PInt i \<Rightarrow> (if 0 \<le> i then 2 * nat i else 2 * nat (- i) + 1) | _ \<Rightarrow> 0)"

definition ex_pandas :: pandas where
  "ex_pandas =
     \<lparr>infer_cell = (\<lambda>vs v. v),
      fill_cell = (\<lambda>vs v. v),
      factorize_keys = (\<lambda>lk rk.
        if list_all is_int lk \<and> list_all is_int rk then Inr int_code else Inl ValueError)\<rparr>"

definition ex_csv :: ustr where
  "ex_csv = [0xFEFF, 0x22, 0x61, 0x2C, 0x62, 0x22, 0x20, 0x0A, 0x22, 0x22, 0x63, 0x22, 0x22]"

definition ex_read_csv :: "ustr \<Rightarrow> string list \<Rightarrow> error + frame" where
  "ex_read_csv t parse_dates =
     (if t = [0x61, 0x2C, 0x62, 0x0A, 0x63] \<and> parse_dates = [''registration_date'']
      then Inr \<lparr>nrows = 1, cols = [(''a'', [PStr ''c'']), (''b'', [PNaN])]\<rparr>
      else Inl ValueError)"

definition ex_fs :: "string \<Rightarrow> ustr option" where
  "ex_fs p = (if p = ''profiles.csv'' then Some ex_csv else None)"

definition ex_heap :: heap where
  "ex_heap = \<lparr>objs = (\<lambda>r. if r = 0 then ex_profiles_dup else ex_events), next_ref = 2\<rparr>"

definition ex_world :: "nat world" where
  "ex_world =
     \<lparr>resolve = (\<lambda>p. ''/data/'' @ p),
      path_exists = (\<lambda>p. p = ''/data/out''),
      execute = (\<lambda>q. if q = ''SELECT count(*) FROM /data/out/**/*.parquet'' then Inr 2
                       else Inl ''Parser Error'')\<rparr>"

definition ex_session :: session where
  "ex_session = \<lparr>executed = [], opened = 0, closed = 0\<rparr>"

section \<open>Field lists\<close>

lemma caller_list_simp:
  "(case flds of Some fs \<Rightarrow> (if fs \<noteq> [] then fs else []) | None \<Rightarrow> []) =
   (case flds of None \<Rightarrow> [] | Some fs \<Rightarrow> fs)"
  by (cases flds) auto

lemma effective_field_set_sort:
  "effective_field_set caller = sort (remdups (default_fields @ caller))"
proof -
  have "{''page_url'', ''button_id'', ''item_id''} \<union> set caller = set (default_fields @ caller)"
    unfolding default_fields_def by auto
  then show ?thesis
    unfolding effective_field_set_def by (simp only: sorted_list_of_set_sort_remdups)
qed

lemma all_fields_effective:
  "all_fields flds = effective_field_set (case flds of None \<Rightarrow> [] | Some fs \<Rightarrow> fs)"
  unfolding all_fields_def caller_list_simp effective_field_set_sort ..

lemma select_all_fields_effective:
  "select_all_fields flds = effective_field_set (case flds of None \<Rightarrow> [] | Some fs \<Rightarrow> fs)"
  unfolding select_all_fields_def caller_list_simp effective_field_set_sort ..

text \<open>
  Claim C8. For every caller-supplied list (also an empty or omitted one), the dynamic
  field list of the column projector equals the field set of the detail flattener, and
  both are the sorted, deduplicated union of the three defaults and the caller's list.
\<close>

theorem field_lists_agree:
  "select_all_fields flds = all_fields flds \<and>
   all_fields flds = effective_field_set (case flds of None \<Rightarrow> [] | Some fs \<Rightarrow> fs) \<and>
   sorted (all_fields flds) \<and> distinct (all_fields flds) \<and>
   set (all_fields flds) =
     {''page_url'', ''button_id'', ''item_id''} \<union> (case flds of None \<Rightarrow> {} | Some fs \<Rightarrow> set fs)"
proof -
  have a: "select_all_fields flds = all_fields flds"
    by (simp add: select_all_fields_def all_fields_def)
  have b: "all_fields flds = effective_field_set (case flds of None \<Rightarrow> [] | Some fs \<Rightarrow> fs)"
    by (rule all_fields_effective)
  have c: "sorted (all_fields flds)"
    by (simp add: all_fields_def)
  have d: "distinct (all_fields flds)"
    by (simp add: all_fields_def)
  have e: "set (all_fields flds) =
     {''page_url'', ''button_id'', ''item_id''} \<union> (case flds of None \<Rightarrow> {} | Some fs \<Rightarrow> set fs)"
    by (cases flds) (auto simp: all_fields_def default_fields_def)
  from a b c d e show ?thesis by blast
qed

section \<open>The serialisation is injective\<close>






























section \<open>Frames and their columns\<close>

lemma bind_Inr_iff: "bind m f = Inr y \<longleftrightarrow> (\<exists>x. m = Inr x \<and> f x = Inr y)"
  by (cases m) (simp_all add: bind_def)

lemma bind_Inr [simp]: "bind (Inr x) f = f x"
  by (simp add: bind_def)

lemma bind_Inl [simp]: "bind (Inl e) f = Inl e"
  by (simp add: bind_def)

lemma getitem_Inr_iff: "getitem df c = Inr vs \<longleftrightarrow> map_of (cols df) c = Some vs"
  by (simp add: getitem_def split: option.splits)

lemma getitem_in_columns: "getitem df c = Inr vs \<Longrightarrow> c \<in> set (columns df)"
  by (auto simp: getitem_Inr_iff columns_def dest: map_of_SomeD intro: rev_image_eqI)

lemma getitem_length: "wf_frame df \<Longrightarrow> getitem df c = Inr vs \<Longrightarrow> length vs = nrows df"
  by (auto simp: getitem_Inr_iff wf_frame_def list_all_iff dest!: map_of_SomeD)


lemma setitem_Inr: "length vs = nrows df \<Longrightarrow> setitem df c vs = Inr (df\<lparr>cols := AList.update c vs (cols df)\<rparr>)"
  by (simp add: setitem_def)

lemma setitem_nrows: "setitem df c vs = Inr df' \<Longrightarrow> nrows df' = nrows df"
  by (auto simp: setitem_def split: if_splits)


lemma setitem_getitem:
  "setitem df c vs = Inr df' \<Longrightarrow> getitem df' c' = (if c' = c then Inr vs else getitem df c')"
  by (auto simp: setitem_def getitem_def update_conv' split: if_splits)

lemma set_update_subset: "set (AList.update k v al) \<subseteq> insert (k, v) (set al)"
  by (induction al) (auto simp: AList.update.simps)

lemma setitem_wf: "wf_frame df \<Longrightarrow> setitem df c vs = Inr df' \<Longrightarrow> wf_frame df'"
  using set_update_subset[of c vs "cols df"]
  by (fastforce simp: setitem_def wf_frame_def columns_def distinct_update list_all_iff split: if_splits)

lemma length_stored [simp]: "length (stored conv vs) = length vs"
  by (simp add: stored_def)

lemma length_projected_column [simp]: "length (projected_column pd field ds) = length ds"
  by (simp add: projected_column_def)


lemma project_fields_total:
  "wf_frame df \<Longrightarrow> getitem df ''details'' = Inr ds \<Longrightarrow>
   \<exists>df'. project_fields pd fs df = Inr df' \<and> wf_frame df' \<and> nrows df' = nrows df"
proof (induction fs arbitrary: df ds)
  case Nil
  then show ?case by simp
next
  case (Cons f rest)
  have len: "length (projected_column pd f ds) = nrows df"
    using getitem_length[OF Cons.prems] by simp
  define df1 where "df1 = df\<lparr>cols := AList.update f (projected_column pd f ds) (cols df)\<rparr>"
  have s: "setitem df f (projected_column pd f ds) = Inr df1"
    unfolding df1_def by (rule setitem_Inr[OF len])
  have w1: "wf_frame df1" by (rule setitem_wf[OF Cons.prems(1) s])
  have g1: "getitem df1 ''details'' = Inr (if ''details'' = f then projected_column pd f ds else ds)"
    using setitem_getitem[OF s, of "''details''"] Cons.prems(2) by simp
  from Cons.IH[OF w1 g1] obtain df' where
    "project_fields pd rest df1 = Inr df'" "wf_frame df'" "nrows df' = nrows df1" by blast
  with s Cons.prems(2) setitem_nrows[OF s] show ?case by simp
qed




section \<open>The detail flattener\<close>

lemma extract_details_fields_first:
  assumes "wf_frame df" and "getitem df ''details'' = Inr ds"
  obtains df1 where
    "setitem df ''details_raw'' (map (\<lambda>x. PStr (json_dumps x)) ds) = Inr df1"
    "extract_details_fields pd df flds = project_fields pd (all_fields flds) df1"
    "wf_frame df1" "getitem df1 ''details'' = Inr ds" "nrows df1 = nrows df"
proof -
  have len: "length (map (\<lambda>x. PStr (json_dumps x)) ds) = nrows df"
    using getitem_length[OF assms] by simp
  define df1 where
    "df1 = df\<lparr>cols := AList.update ''details_raw'' (map (\<lambda>x. PStr (json_dumps x)) ds) (cols df)\<rparr>"
  have s: "setitem df ''details_raw'' (map (\<lambda>x. PStr (json_dumps x)) ds) = Inr df1"
    unfolding df1_def by (rule setitem_Inr[OF len])
  have e: "extract_details_fields pd df flds = project_fields pd (all_fields flds) df1"
    by (simp add: extract_details_fields_def assms(2) s)
  have w: "wf_frame df1" by (rule setitem_wf[OF assms(1) s])
  have g: "getitem df1 ''details'' = Inr ds"
    using setitem_getitem[OF s, of "''details''"] assms(2) by simp
  have n: "nrows df1 = nrows df" by (rule setitem_nrows[OF s])
  from s e w g n show ?thesis by (rule that)
qed





lemma extract_details_fields_total:
  assumes "wf_frame df" and "getitem df ''details'' = Inr ds"
  shows "\<exists>df'. extract_details_fields pd df flds = Inr df' \<and> wf_frame df' \<and> nrows df' = nrows df"
proof -
  from assms obtain df1 where
    e: "extract_details_fields pd df flds = project_fields pd (all_fields flds) df1" and
    w: "wf_frame df1" and g: "getitem df1 ''details'' = Inr ds" and n: "nrows df1 = nrows df"
    by (rule extract_details_fields_first)
  from project_fields_total[OF w g, where pd = pd and fs = "all_fields flds"] e n show ?thesis by auto
qed


lemma ex_events_wf: "wf_frame ex_events"
  by (simp add: wf_frame_def ex_events_def columns_def)

lemma ex_events_details:
  "getitem ex_events ''details'' = Inr [PDict [(''page_url'', PStr ''/x'')], PNone]"
  by (simp add: getitem_def ex_events_def)












section \<open>The column projector and the joiner\<close>











lemma rename_overlap_none: "rename_overlap [] suffix c = c"
  by (simp add: rename_overlap_def)

lemma merge_left_no_overlap:
  assumes "getitem left key = Inr lk" and "getitem right key = Inr rk"
    and "factorize_keys pd lk rk = Inr code"
    and "distinct (columns left)" and "distinct (columns right)"
    and "set (columns left) \<inter> set (columns right) \<subseteq> {key}"
  shows "\<exists>df. merge_left pd left right key = Inr df"
proof -
  let ?rcols = "filter (\<lambda>cv. fst cv \<noteq> key) (cols right)"
  have sub: "set (map fst ?rcols) \<subseteq> set (columns right) - {key}"
    by (auto simp: columns_def)
  have ov: "filter (\<lambda>c. c \<in> set (map fst ?rcols)) (columns left) = []"
    using assms(6) sub by (auto simp: filter_empty_conv)
  have dr: "distinct (map fst ?rcols)"
    using assms(5) by (simp add: columns_def distinct_map_filter)
  show ?thesis
    using assms(1,2,3,4) dr
    by (simp add: merge_left_def Let_def ov rename_overlap_none[abs_def] comp_def del: set_map)
qed





lemma ex_events_user_id: "getitem ex_events ''user_id'' = Inr [PInt 1, PInt 3]"
  by (simp add: getitem_def ex_events_def)

lemma ex_factorize_ints:
  "list_all is_int lk \<Longrightarrow> list_all is_int rk \<Longrightarrow> factorize_keys ex_pandas lk rk = Inr int_code"
  by (simp add: ex_pandas_def)


section \<open>The identity assigner\<close>

lemma of_char_hexdigit:
  "n < 16 \<Longrightarrow> (of_char (hexdigit n) :: nat) = (if n < 10 then 48 + n else 87 + n)"
  by (simp add: hexdigit_def)

lemma hexdigit_inj: "n < 16 \<Longrightarrow> m < 16 \<Longrightarrow> hexdigit n = hexdigit m \<Longrightarrow> n = m"
proof -
  assume a: "n < 16" "m < 16" "hexdigit n = hexdigit m"
  from a(3) have "(of_char (hexdigit n) :: nat) = of_char (hexdigit m)" by simp
  with a(1,2) show ?thesis
    by (simp add: of_char_hexdigit split: if_splits)
qed

lemma hexdigit_not_dash: "n < 16 \<Longrightarrow> hexdigit n \<noteq> CHR ''-''"
proof
  assume a: "n < 16" "hexdigit n = CHR ''-''"
  from a(2) have "(of_char (hexdigit n) :: nat) = of_char CHR ''-''" by simp
  with a(1) show False
    by (simp add: of_char_hexdigit split: if_splits)
qed

lemma nibble_less: "unat ((w :: 128 word) AND 0xF) < 16"
proof -
  have "w AND 0xF \<le> 0xF" by (rule word_and_le1)
  then have "unat (w AND 0xF) \<le> unat (0xF :: 128 word)" by (simp add: word_le_nat_alt)
  then show ?thesis by simp
qed

lemma bit_nibble:
  "bit (drop_bit k (w :: 128 word) AND 0xF) j \<longleftrightarrow> j < 4 \<and> bit w (k + j)"
proof -
  have m: "(0xF :: 128 word) = mask 4" by (simp add: mask_eq_exp_minus_1)
  have "bit (drop_bit k w AND mask 4) j \<longleftrightarrow> j < 4 \<and> bit w (k + j)"
    by (simp only: bit_and_iff bit_drop_bit_eq bit_mask_iff) (auto simp: bit_imp_possible_bit)
  then show ?thesis by (simp only: m)
qed

lemma length_hex32: "length (hex32 w) = 32"
  by (simp add: hex32_def)

lemma hex32_no_dash: "CHR ''-'' \<notin> set (hex32 w)"
proof
  assume "CHR ''-'' \<in> set (hex32 w)"
  then obtain i where "hexdigit (unat (drop_bit (4 * i) w AND 0xF)) = CHR ''-''"
    unfolding hex32_def by (auto simp del: upt_rec_numeral)
  with hexdigit_not_dash[OF nibble_less] show False by blast
qed

lemma hex32_inj: "hex32 a = hex32 b \<Longrightarrow> a = b"
proof (rule bit_word_eqI)
  fix n
  assume h: "hex32 a = hex32 b" and n: "n < LENGTH(128)"
  let ?i = "n div 4"
  have i: "?i \<in> set (rev [0..<32])" using n by simp
  from h have "\<forall>i \<in> set (rev [0..<32]).
      hexdigit (unat (drop_bit (4 * i) a AND 0xF)) = hexdigit (unat (drop_bit (4 * i) b AND 0xF))"
    unfolding hex32_def by (simp only: map_eq_conv)
  with i have "hexdigit (unat (drop_bit (4 * ?i) a AND 0xF)) = hexdigit (unat (drop_bit (4 * ?i) b AND 0xF))"
    by blast
  then have "unat (drop_bit (4 * ?i) a AND 0xF) = unat (drop_bit (4 * ?i) b AND 0xF)"
    by (rule hexdigit_inj[OF nibble_less nibble_less])
  then have "drop_bit (4 * ?i) a AND 0xF = drop_bit (4 * ?i) b AND 0xF"
    by (simp only: word_unat_eq_iff)
  then have "bit (drop_bit (4 * ?i) a AND 0xF) (n mod 4) = bit (drop_bit (4 * ?i) b AND 0xF) (n mod 4)"
    by simp
  then show "bit a n = bit b n"
    by (simp add: bit_nibble)
qed

lemma filter_uuid_str: "filter (\<lambda>c. c \<noteq> CHR ''-'') (uuid_str w) = hex32 w"
proof -
  let ?h = "hex32 w"
  have keep: "filter (\<lambda>c. c \<noteq> CHR ''-'') xs = xs" if "set xs \<subseteq> set ?h" for xs
    using that hex32_no_dash[of w] by (auto simp: filter_id_conv)
  have parts: "take 8 ?h @ take 4 (drop 8 ?h) @ take 4 (drop 12 ?h) @ take 4 (drop 16 ?h) @ drop 20 ?h = ?h"
  proof -
    have "take 4 (drop 16 ?h) @ drop 20 ?h = drop 16 ?h"
      using take_add[of 16 4 ?h] append_take_drop_id[of 4 "drop 16 ?h"] by (simp add: add.commute)
    moreover have "take 4 (drop 12 ?h) @ drop 16 ?h = drop 12 ?h"
      using append_take_drop_id[of 4 "drop 12 ?h"] by (simp add: add.commute)
    moreover have "take 4 (drop 8 ?h) @ drop 12 ?h = drop 8 ?h"
      using append_take_drop_id[of 4 "drop 8 ?h"] by (simp add: add.commute)
    ultimately show ?thesis by simp
  qed
  have "filter (\<lambda>c. c \<noteq> CHR ''-'') (uuid_str w) =
      take 8 ?h @ take 4 (drop 8 ?h) @ take 4 (drop 12 ?h) @ take 4 (drop 16 ?h) @ drop 20 ?h"
    by (simp add: uuid_str_def Let_def keep set_take_subset set_drop_subset
        order_trans[OF set_take_subset set_drop_subset])
  with parts show ?thesis by simp
qed

lemma uuid_str_inj: "uuid_str a = uuid_str b \<Longrightarrow> a = b"
  using filter_uuid_str[of a] filter_uuid_str[of b] hex32_inj by auto

lemma length_uuid_str: "length (uuid_str w) = 36"
  by (simp add: uuid_str_def Let_def length_hex32)

lemma distinct_map_inj: "inj f \<Longrightarrow> distinct (map f xs) = distinct xs"
  by (auto simp: distinct_map intro: inj_on_subset)

text \<open>
  Claim C2, as the code has it. For every joined record set of any size and every
  entropy source, after the identity assignment the row count is unchanged and every row
  carries an \<^verbatim>\<open>event_id\<close>, the 36-character text of a version-4 UUID made from that row's
  random draw; the values are pairwise distinct exactly when the rows' draws are pairwise
  distinct once the version and variant bits are set. The code checks no collision.
\<close>

theorem generate_event_id_ids:
  "\<exists>df' ids. generate_event_id urandom k df = (Inr df', k + nrows df) \<and>
     nrows df' = nrows df \<and> getitem df' ''event_id'' = Inr ids \<and> length ids = nrows df \<and>
     ids = map (\<lambda>i. PStr (uuid_str (uuid4_int (urandom (k + i))))) [0..<nrows df] \<and>
     list_all (\<lambda>v. case v of PStr s \<Rightarrow> length s = 36 | _ \<Rightarrow> False) ids \<and>
     (distinct ids \<longleftrightarrow> distinct (map (\<lambda>i. uuid4_int (urandom (k + i))) [0..<nrows df]))"
proof -
  let ?ids = "map (\<lambda>i. PStr (uuid_str (uuid4_int (urandom (k + i))))) [0..<nrows df]"
  let ?df' = "df\<lparr>cols := AList.update ''event_id'' ?ids (cols df)\<rparr>"
  have s: "setitem df ''event_id'' ?ids = Inr ?df'"
    by (rule setitem_Inr) simp
  have g: "generate_event_id urandom k df = (Inr ?df', k + nrows df)"
    by (simp only: generate_event_id_def s)
  have v: "getitem ?df' ''event_id'' = Inr ?ids"
    using setitem_getitem[OF s, of "''event_id''"] by simp
  have inj: "inj (\<lambda>w. PStr (uuid_str w))"
    by (rule injI) (auto dest: uuid_str_inj)
  have "?ids = map (\<lambda>w. PStr (uuid_str w)) (map (\<lambda>i. uuid4_int (urandom (k + i))) [0..<nrows df])"
    by simp
  then have d: "distinct ?ids \<longleftrightarrow> distinct (map (\<lambda>i. uuid4_int (urandom (k + i))) [0..<nrows df])"
    by (simp only: distinct_map_inj[OF inj])
  have l: "list_all (\<lambda>v. case v of PStr s \<Rightarrow> length s = 36 | _ \<Rightarrow> False) ?ids"
    by (simp add: list_all_iff length_uuid_str)
  have n: "nrows ?df' = nrows df" by simp
  have len: "length ?ids = nrows df" by simp
  from g n v len l d show ?thesis by blast
qed

lemma uuid_zero: "uuid_str (uuid4_int 0) = ''00000000-0000-4000-8000-000000000000''"
  by code_simp

text \<open>Claim C2 as stated fails for an entropy source that repeats a draw: both rows get
  the same identifier.\<close>

theorem generate_event_id_counterexample:
  "map_sum id (\<lambda>df'. getitem df' ''event_id'') (fst (generate_event_id (\<lambda>n. 0) 0 ex_events)) =
     Inr (Inr [PStr ''00000000-0000-4000-8000-000000000000'',
               PStr ''00000000-0000-4000-8000-000000000000''])"
proof -
  have "map_sum id (\<lambda>df'. getitem df' ''event_id'') (fst (generate_event_id (\<lambda>n. 0) 0 ex_events)) =
     Inr (Inr [PStr (uuid_str (uuid4_int 0)), PStr (uuid_str (uuid4_int 0))])"
    by (simp add: generate_event_id_def setitem_def getitem_def ex_events_def upt_rec)
  then show ?thesis by (simp only: uuid_zero)
qed

section \<open>The profile loader\<close>

lemma py_strip_decomp:
  "s = takeWhile P s @ py_strip P s @ rev (takeWhile P (rev (dropWhile P s)))"
proof -
  let ?t = "dropWhile P s"
  have "rev (takeWhile P (rev ?t) @ dropWhile P (rev ?t)) = rev (rev ?t)"
    by (simp only: takeWhile_dropWhile_id)
  then have "rev (dropWhile P (rev ?t)) @ rev (takeWhile P (rev ?t)) = ?t"
    by (simp only: rev_append rev_rev_ident)
  moreover have "s = takeWhile P s @ ?t" by simp
  ultimately show ?thesis unfolding py_strip_def by simp
qed

lemma py_strip_ends:
  assumes "py_strip P s \<noteq> []"
  shows "\<not> P (hd (py_strip P s)) \<and> \<not> P (last (py_strip P s))"
proof -
  let ?t = "dropWhile P s"
  let ?u = "dropWhile P (rev ?t)"
  from assms have u: "?u \<noteq> []" by (simp add: py_strip_def)
  have "?u = []" if "?t = []"
    using that by (simp only: rev.simps dropWhile.simps)
  with u have t: "?t \<noteq> []" by blast
  have "last (py_strip P s) = hd ?u" using u by (simp add: py_strip_def last_rev)
  moreover have "\<not> P (hd ?u)" using u by (rule hd_dropWhile)
  moreover have "hd (py_strip P s) = last ?u" using u by (simp add: py_strip_def hd_rev)
  moreover have "last ?u = last (rev ?t)"
    using u by (metis append_Nil2 last_appendR takeWhile_dropWhile_id)
  moreover have "last (rev ?t) = hd ?t" using t by (simp add: last_rev)
  moreover have "\<not> P (hd ?t)" using t by (rule hd_dropWhile)
  ultimately show ?thesis by simp
qed

lemma list_all_rev: "list_all P (rev xs) = list_all P xs"
  by (simp add: list_all_iff)

lemma list_all_takeWhile: "list_all P (takeWhile P xs)"
  by (induction xs) auto

text \<open>
  Claim C5, as the code has it. The loader drops one byte-order mark at the start of the
  file; from every line it strips all leading and trailing whitespace and then every
  leading and every trailing quote character, so that the repaired line neither starts nor
  ends with a quote; it joins the repaired lines by newlines and parses that text with
  \<^verbatim>\<open>registration_date\<close> as the date column.
\<close>

theorem repair_line_strips:
  assumes "fs csv_path = Some content"
  shows "load_profile_file fs read_csv csv_path = read_csv (fixed_csv content) [''registration_date''] \<and>
     fixed_csv content =
       intercalate [newline] (map repair_line (file_lines (universal_newlines (utf8_sig content)))) \<and>
     utf8_sig (bom # cs) = cs \<and>
     (\<exists>ws1 ws2 q1 q2.
        line = ws1 @ py_strip is_space line @ ws2 \<and>
        list_all is_space ws1 \<and> list_all is_space ws2 \<and>
        py_strip is_space line = q1 @ repair_line line @ q2 \<and>
        list_all (\<lambda>c. c = quote_char) q1 \<and> list_all (\<lambda>c. c = quote_char) q2) \<and>
     (py_strip is_space line = [] \<or>
        (\<not> is_space (hd (py_strip is_space line)) \<and> \<not> is_space (last (py_strip is_space line)))) \<and>
     (repair_line line = [] \<or>
        (hd (repair_line line) \<noteq> quote_char \<and> last (repair_line line) \<noteq> quote_char))"
proof -
  have a: "load_profile_file fs read_csv csv_path = read_csv (fixed_csv content) [''registration_date'']"
    using assms by (simp add: load_profile_file_def)
  have b: "fixed_csv content =
       intercalate [newline] (map repair_line (file_lines (universal_newlines (utf8_sig content))))"
    by (simp add: fixed_csv_def)
  have c: "utf8_sig (bom # cs) = cs"
    by (simp add: utf8_sig_def)
  let ?t = "py_strip is_space line"
  have d1: "line = takeWhile is_space line @ ?t @ rev (takeWhile is_space (rev (dropWhile is_space line)))"
    by (rule py_strip_decomp)
  have d2: "?t = takeWhile (\<lambda>c. c = quote_char) ?t @ repair_line line @
       rev (takeWhile (\<lambda>c. c = quote_char) (rev (dropWhile (\<lambda>c. c = quote_char) ?t)))"
    unfolding repair_line_def by (rule py_strip_decomp)
  have d: "\<exists>ws1 ws2 q1 q2.
        line = ws1 @ ?t @ ws2 \<and>
        list_all is_space ws1 \<and> list_all is_space ws2 \<and>
        ?t = q1 @ repair_line line @ q2 \<and>
        list_all (\<lambda>c. c = quote_char) q1 \<and> list_all (\<lambda>c. c = quote_char) q2"
    using d1 d2 list_all_takeWhile[of is_space] list_all_takeWhile[of "\<lambda>c. c = quote_char"]
    by (metis list_all_rev)
  have e: "?t = [] \<or> (\<not> is_space (hd ?t) \<and> \<not> is_space (last ?t))"
    using py_strip_ends[of is_space line] by blast
  have f: "repair_line line = [] \<or>
        (hd (repair_line line) \<noteq> quote_char \<and> last (repair_line line) \<noteq> quote_char)"
    using py_strip_ends[of "\<lambda>c. c = quote_char" ?t] unfolding repair_line_def by blast
  from a b c d e f show ?thesis by blast
qed

text \<open>A file with a byte-order mark, one quoted line and one doubly quoted line.\<close>

theorem repair_line_strips_witness:
  "load_profile_file ex_fs ex_read_csv ''profiles.csv'' =
     Inr \<lparr>nrows = 1, cols = [(''a'', [PStr ''c'']), (''b'', [PNaN])]\<rparr> \<and>
   fixed_csv ex_csv = [0x61, 0x2C, 0x62, 0x0A, 0x63]"
proof -
  have h: "ex_fs ''profiles.csv'' = Some ex_csv"
    by (simp add: ex_fs_def)
  have fx: "fixed_csv ex_csv = [0x61, 0x2C, 0x62, 0x0A, 0x63]"
    by (simp add: fixed_csv_def ex_csv_def utf8_sig_def bom_def newline_def repair_line_def
        py_strip_def is_space_def quote_char_def)
  from repair_line_strips[where fs = ex_fs and csv_path = "''profiles.csv''" and content = ex_csv
      and read_csv = ex_read_csv, OF h] fx
  show ?thesis
    by (simp add: ex_read_csv_def)
qed

text \<open>
  Claim C5 as stated fails on a doubly quoted line: the code removes both layers, where
  stripping a single layer leaves one. A byte-order mark at the start of a later line is
  not removed.
\<close>

theorem repair_line_counterexample:
  "repair_line [0x22, 0x22, 0x61, 0x22, 0x22] = [0x61] \<and>
   strip_single_quote_layer (py_strip is_space [0x22, 0x22, 0x61, 0x22, 0x22]) = [0x22, 0x61, 0x22] \<and>
   fixed_csv [0x61, 0x0A, 0xFEFF, 0x62] = [0x61, 0x0A, 0xFEFF, 0x62]"
  by (simp add: fixed_csv_def utf8_sig_def bom_def newline_def repair_line_def
      py_strip_def is_space_def quote_char_def strip_single_quote_layer_def)

section \<open>Stages and the objects they are given\<close>

text \<open>
  Claim C7, as the code has it. The joiner and the column projector build a new record
  set at a fresh reference and change no existing one. The detail flattener and the
  identity assigner return the reference they were given, allocate nothing, and change
  the record set stored there (and no other) into their result.
\<close>

theorem stages_and_their_inputs:
  "(join_data_ref pd h p e = Inr (r', h') \<longrightarrow>
      r' = next_ref h \<and> next_ref h' = Suc (next_ref h) \<and>
      join_data pd (objs h p) (objs h e) = Inr (objs h' r') \<and>
      (\<forall>q. q \<noteq> next_ref h \<longrightarrow> objs h' q = objs h q)) \<and>
   (select_final_columns_ref h d extra_fields = Inr (r', h') \<longrightarrow>
      r' = next_ref h \<and> next_ref h' = Suc (next_ref h) \<and>
      select_final_columns (objs h d) extra_fields = Inr (objs h' r') \<and>
      (\<forall>q. q \<noteq> next_ref h \<longrightarrow> objs h' q = objs h q)) \<and>
   (extract_details_fields_ref pd h d flds = Inr (r', h') \<longrightarrow>
      r' = d \<and> next_ref h' = next_ref h \<and>
      extract_details_fields pd (objs h d) flds = Inr (objs h' d) \<and>
      (\<forall>q. q \<noteq> d \<longrightarrow> objs h' q = objs h q)) \<and>
   (fst (generate_event_id_ref urandom k h d) = Inr (r', h') \<longrightarrow>
      r' = d \<and> next_ref h' = next_ref h \<and>
      fst (generate_event_id urandom k (objs h d)) = Inr (objs h' d) \<and>
      (\<forall>q. q \<noteq> d \<longrightarrow> objs h' q = objs h q))"
proof -
  have a: "r' = next_ref h \<and> next_ref h' = Suc (next_ref h) \<and>
      join_data pd (objs h p) (objs h e) = Inr (objs h' r') \<and>
      (\<forall>q. q \<noteq> next_ref h \<longrightarrow> objs h' q = objs h q)"
    if "join_data_ref pd h p e = Inr (r', h')"
    using that by (auto simp: join_data_ref_def alloc_def bind_Inr_iff)
  have b: "r' = next_ref h \<and> next_ref h' = Suc (next_ref h) \<and>
      select_final_columns (objs h d) extra_fields = Inr (objs h' r') \<and>
      (\<forall>q. q \<noteq> next_ref h \<longrightarrow> objs h' q = objs h q)"
    if "select_final_columns_ref h d extra_fields = Inr (r', h')"
    using that by (auto simp: select_final_columns_ref_def alloc_def bind_Inr_iff)
  have c: "r' = d \<and> next_ref h' = next_ref h \<and>
      extract_details_fields pd (objs h d) flds = Inr (objs h' d) \<and>
      (\<forall>q. q \<noteq> d \<longrightarrow> objs h' q = objs h q)"
    if "extract_details_fields_ref pd h d flds = Inr (r', h')"
    using that by (auto simp: extract_details_fields_ref_def bind_Inr_iff)
  have d: "r' = d \<and> next_ref h' = next_ref h \<and>
      fst (generate_event_id urandom k (objs h d)) = Inr (objs h' d) \<and>
      (\<forall>q. q \<noteq> d \<longrightarrow> objs h' q = objs h q)"
    if "fst (generate_event_id_ref urandom k h d) = Inr (r', h')"
    using that
    by (auto simp: generate_event_id_ref_def bind_Inr_iff split: prod.splits)
  from a b c d show ?thesis by blast
qed

text \<open>Claim C7 as stated fails for the detail flattener: the record set it received has
  three columns before the call and seven after it.\<close>

theorem extract_details_fields_in_place_counterexample:
  "\<forall>pd. \<exists>h'. extract_details_fields_ref pd ex_heap 1 None = Inr (1, h') \<and>
     columns (objs ex_heap 1) = [''user_id'', ''event_type'', ''details''] \<and>
     columns (objs h' 1) =
       [''user_id'', ''event_type'', ''details'', ''details_raw'', ''button_id'', ''item_id'', ''page_url'']"
  by (simp add: extract_details_fields_ref_def ex_heap_def extract_details_fields_def
      all_fields_def default_fields_def ex_events_def getitem_def setitem_def columns_def
      projected_column_def stored_def)

text \<open>The flattener and the joiner on a heap of two record sets.\<close>

theorem stages_and_their_inputs_witness:
  "(\<exists>h'. extract_details_fields_ref ex_pandas ex_heap 1 None = Inr (1, h') \<and> next_ref h' = 2 \<and>
       extract_details_fields ex_pandas ex_events None = Inr (objs h' 1) \<and>
       objs h' 0 = ex_profiles_dup) \<and>
   (\<exists>h'. join_data_ref ex_pandas ex_heap 0 1 = Inr (2, h') \<and> next_ref h' = 3 \<and>
       objs h' 0 = ex_profiles_dup \<and> objs h' 1 = ex_events)"
proof -
  have o0: "objs ex_heap 0 = ex_profiles_dup" and o1: "objs ex_heap 1 = ex_events"
    and nx: "next_ref ex_heap = 2" and o1s: "objs ex_heap (Suc 0) = ex_events"
    by (simp_all add: ex_heap_def)
  from extract_details_fields_total[OF ex_events_wf ex_events_details, of ex_pandas None]
  obtain df' where "extract_details_fields ex_pandas ex_events None = Inr df'" by blast
  then have "\<exists>r1 h1. extract_details_fields_ref ex_pandas ex_heap 1 None = Inr (r1, h1)"
    unfolding extract_details_fields_ref_def o1 by simp
  then obtain r1 h1 where e: "extract_details_fields_ref ex_pandas ex_heap 1 None = Inr (r1, h1)"
    by blast
  from stages_and_their_inputs[where pd = ex_pandas and h = ex_heap and d = 1 and flds = None
      and r' = r1 and h' = h1] e
  have e': "r1 = 1 \<and> next_ref h1 = next_ref ex_heap \<and>
      extract_details_fields ex_pandas (objs ex_heap 1) None = Inr (objs h1 1) \<and>
      (\<forall>q. q \<noteq> 1 \<longrightarrow> objs h1 q = objs ex_heap q)"
    by blast
  then have "objs h1 0 = objs ex_heap 0" by simp
  with e e' have a: "\<exists>h'. extract_details_fields_ref ex_pandas ex_heap 1 None = Inr (1, h') \<and>
       next_ref h' = 2 \<and>
       extract_details_fields ex_pandas ex_events None = Inr (objs h' 1) \<and>
       objs h' 0 = ex_profiles_dup"
    by (auto simp: o0 o1 o1s nx)
  have pk: "getitem ex_profiles_dup ''user_id'' = Inr [PInt 1, PInt 2, PInt 1]"
    by (simp add: getitem_def ex_profiles_dup_def)
  have f: "factorize_keys ex_pandas [PInt 1, PInt 3] [PInt 1, PInt 2, PInt 1] = Inr int_code"
    by (rule ex_factorize_ints) (simp_all add: is_int_def)
  have "\<exists>df. merge_left ex_pandas ex_events ex_profiles_dup ''user_id'' = Inr df"
    by (rule merge_left_no_overlap[OF ex_events_user_id pk f])
      (simp_all add: ex_events_def ex_profiles_dup_def columns_def)
  then obtain df where "join_data ex_pandas ex_profiles_dup ex_events = Inr df"
    by (auto simp: join_data_def)
  then have "\<exists>r2 h2. join_data_ref ex_pandas ex_heap 0 1 = Inr (r2, h2)"
    unfolding join_data_ref_def alloc_def o0 o1 by simp
  then obtain r2 h2 where j: "join_data_ref ex_pandas ex_heap 0 1 = Inr (r2, h2)"
    by blast
  from stages_and_their_inputs[where pd = ex_pandas and h = ex_heap and p = 0 and e = 1
      and r' = r2 and h' = h2] j
  have j': "r2 = next_ref ex_heap \<and> next_ref h2 = Suc (next_ref ex_heap) \<and>
      (\<forall>q. q \<noteq> next_ref ex_heap \<longrightarrow> objs h2 q = objs ex_heap q)"
    by blast
  then have "objs h2 0 = objs ex_heap 0" "objs h2 1 = objs ex_heap 1"
    by (simp_all add: nx)
  with j j' have b: "\<exists>h'. join_data_ref ex_pandas ex_heap 0 1 = Inr (2, h') \<and> next_ref h' = 3 \<and>
       objs h' 0 = ex_profiles_dup \<and> objs h' 1 = ex_events"
    by (auto simp: o0 o1 o1s nx)
  from a b show ?thesis by blast
qed

section \<open>The query utility\<close>

lemma py_replace_Nil: "py_replace old new [] = []"
  by (subst py_replace.simps) simp

lemma py_replace_match:
  "old \<noteq> [] \<Longrightarrow> py_replace old new (old @ s) = new @ py_replace old new s"
  by (subst py_replace.simps) simp

lemma py_replace_skip:
  "s \<noteq> [] \<Longrightarrow> take (length old) s \<noteq> old \<Longrightarrow>
   py_replace old new s = hd s # py_replace old new (tl s)"
  by (subst py_replace.simps) simp

lemma py_replace_placeholder_skip:
  "CHR ''{'' \<noteq> c \<Longrightarrow> py_replace placeholder g (c # s) = c # py_replace placeholder g s"
  by (subst py_replace.simps) (auto simp: placeholder_def)

lemma py_replace_first:
  "CHR ''{'' \<notin> set pre \<Longrightarrow>
   py_replace placeholder g (pre @ placeholder @ post) = pre @ g @ py_replace placeholder g post"
proof (induction pre)
  case Nil
  have "placeholder \<noteq> []" by (simp add: placeholder_def)
  then show ?case by (simp add: py_replace_match)
next
  case (Cons c pre)
  then show ?case by (simp add: py_replace_placeholder_skip)
qed

lemma py_replace_absent:
  "CHR ''{'' \<notin> set s \<Longrightarrow> py_replace placeholder g s = s"
  by (induction s) (simp_all add: py_replace_placeholder_skip py_replace_Nil)

text \<open>
  Claim C9. For every query template and path: when the resolved path does not exist
  the query operation fails with \<^verbatim>\<open>FileNotFoundError\<close> (the spec's PathNotFound) and
  nothing is opened or executed; otherwise one connection is opened and closed, exactly
  the substituted query is executed, and the operation returns its table, or fails with
  \<^verbatim>\<open>RuntimeError\<close> (the spec's QueryFailure) whose message wraps the message of the
  execution error. The substituted query has the placeholder replaced by the recursive glob
  \<^verbatim>\<open>**/*.parquet\<close> under the resolved path; a template without an opening brace is
  unchanged.
\<close>

theorem query_output_parquet_outcomes:
  "(\<not> path_exists w (resolve w parquet_path) \<longrightarrow>
      query_output_parquet w query parquet_path st =
        (Inl (FileNotFoundError (''Provided path does not exist: '' @ resolve w parquet_path)), st)) \<and>
   (path_exists w (resolve w parquet_path) \<longrightarrow>
      executed (snd (query_output_parquet w query parquet_path st)) =
        executed st @ [py_replace placeholder (path_join (resolve w parquet_path) ''**/*.parquet'') query] \<and>
      opened (snd (query_output_parquet w query parquet_path st)) = Suc (opened st) \<and>
      closed (snd (query_output_parquet w query parquet_path st)) = Suc (closed st) \<and>
      fst (query_output_parquet w query parquet_path st) =
        (case execute w (py_replace placeholder (path_join (resolve w parquet_path) ''**/*.parquet'') query) of
           Inl e \<Rightarrow> Inl (RuntimeError (''Query failed: '' @ e))
         | Inr result_df \<Rightarrow> Inr result_df)) \<and>
   (CHR ''{'' \<notin> set pre \<longrightarrow>
      py_replace placeholder g (pre @ placeholder @ post) = pre @ g @ py_replace placeholder g post) \<and>
   (CHR ''{'' \<notin> set query \<longrightarrow> py_replace placeholder g query = query)"
proof -
  let ?q = "py_replace placeholder (path_join (resolve w parquet_path) ''**/*.parquet'') query"
  have a: "query_output_parquet w query parquet_path st =
        (Inl (FileNotFoundError (''Provided path does not exist: '' @ resolve w parquet_path)), st)"
    if "\<not> path_exists w (resolve w parquet_path)"
    using that by (simp add: query_output_parquet_def Let_def)
  have b: "executed (snd (query_output_parquet w query parquet_path st)) = executed st @ [?q] \<and>
      opened (snd (query_output_parquet w query parquet_path st)) = Suc (opened st) \<and>
      closed (snd (query_output_parquet w query parquet_path st)) = Suc (closed st) \<and>
      fst (query_output_parquet w query parquet_path st) =
        (case execute w ?q of
           Inl e \<Rightarrow> Inl (RuntimeError (''Query failed: '' @ e))
         | Inr result_df \<Rightarrow> Inr result_df)"
    if "path_exists w (resolve w parquet_path)"
    using that by (cases "execute w ?q") (simp_all add: query_output_parquet_def Let_def)
  from a b py_replace_first[of pre g post] py_replace_absent[of query g] show ?thesis
    by blast
qed

text \<open>A missing directory, a query that succeeds and one that the engine rejects.\<close>

theorem query_output_parquet_outcomes_witness:
  "query_output_parquet ex_world ''SELECT count(*) FROM {parquet_path}'' ''missing'' ex_session =
     (Inl (FileNotFoundError ''Provided path does not exist: /data/missing''), ex_session) \<and>
   fst (query_output_parquet ex_world ''SELECT count(*) FROM {parquet_path}'' ''out'' ex_session) = Inr 2 \<and>
   fst (query_output_parquet ex_world ''SELEC count(*) FROM {parquet_path}'' ''out'' ex_session) =
     Inl (RuntimeError ''Query failed: Parser Error'') \<and>
   executed (snd (query_output_parquet ex_world ''SELECT count(*) FROM {parquet_path}'' ''out'' ex_session)) =
     [''SELECT count(*) FROM /data/out/**/*.parquet'']"
proof -
  have r1: "resolve ex_world ''missing'' = ''/data/missing''"
    and r2: "resolve ex_world ''out'' = ''/data/out''"
    and p1: "\<not> path_exists ex_world ''/data/missing''"
    and p2: "path_exists ex_world ''/data/out''"
    by (simp_all add: ex_world_def)
  have g: "path_join ''/data/out'' ''**/*.parquet'' = ''/data/out/**/*.parquet''"
    by (simp add: path_join_def)
  have f1: "py_replace placeholder ''/data/out/**/*.parquet'' ''SELECT count(*) FROM {parquet_path}'' =
      ''SELECT count(*) FROM /data/out/**/*.parquet''"
    by code_simp
  have f2: "py_replace placeholder ''/data/out/**/*.parquet'' ''SELEC count(*) FROM {parquet_path}'' =
      ''SELEC count(*) FROM /data/out/**/*.parquet''"
    by code_simp
  have e1: "execute ex_world ''SELECT count(*) FROM /data/out/**/*.parquet'' = Inr 2"
    and e2: "execute ex_world ''SELEC count(*) FROM /data/out/**/*.parquet'' = Inl ''Parser Error''"
    by (simp_all add: ex_world_def)
  from query_output_parquet_outcomes[of ex_world "''missing''" "''SELECT count(*) FROM {parquet_path}''"
      ex_session "[]" "[]" "[]"] p1
  have a: "query_output_parquet ex_world ''SELECT count(*) FROM {parquet_path}'' ''missing'' ex_session =
     (Inl (FileNotFoundError ''Provided path does not exist: /data/missing''), ex_session)"
    by (simp add: r1)
  from query_output_parquet_outcomes[of ex_world "''out''" "''SELECT count(*) FROM {parquet_path}''"
      ex_session "[]" "[]" "[]"] p2
  have b: "fst (query_output_parquet ex_world ''SELECT count(*) FROM {parquet_path}'' ''out'' ex_session) = Inr 2"
    and d: "executed (snd (query_output_parquet ex_world ''SELECT count(*) FROM {parquet_path}'' ''out'' ex_session)) =
     [''SELECT count(*) FROM /data/out/**/*.parquet'']"
    by (simp_all add: r2 g f1 e1 ex_session_def)
  from query_output_parquet_outcomes[of ex_world "''out''" "''SELEC count(*) FROM {parquet_path}''"
      ex_session "[]" "[]" "[]"] p2
  have c: "fst (query_output_parquet ex_world ''SELEC count(*) FROM {parquet_path}'' ''out'' ex_session) =
     Inl (RuntimeError ''Query failed: Parser Error'')"
    by (simp add: r2 g f2 e2)
  from a b c d show ?thesis by blast
qed

end
